theory Spec2Isabelle
  imports Main
begin

section \<open>The News pipeline of notebooks/News.ipynb\<close>

text \<open>
  The notebook defines one class, \<^verbatim>\<open>News(Expression)\<close>, with a constructor that
  builds a graph of framework expressions, a \<^verbatim>\<open>forward\<close> method that fetches a page,
  streams it through the graph, clusters the results and optionally renders them, and
  a cell that runs the pipeline and saves the result. The framework classes
  (\<^verbatim>\<open>Stream\<close>, \<^verbatim>\<open>Sequence\<close>, \<^verbatim>\<open>Clean\<close>, ...) come from \<^verbatim>\<open>from symai import *\<close>;
  the notebook only constructs and calls them.
\<close>

subsection \<open>Expressions, symbols, exceptions\<close>

text \<open>
  The expression objects the notebook constructs, by class name and constructor
  arguments. \<^verbatim>\<open>Template\<close> carries its mutable attribute \<^verbatim>\<open>template_\<close>, which
  \<^verbatim>\<open>News.render\<close> assigns.
\<close>

datatype expression =
    Clean
  | Translate
  | Outline
  | Compose string
  | ExcludeFilter string
  | Style string "string list"
  | Template "string option"
  | Sequence "expression list"
  | Stream expression

text \<open>A \<^verbatim>\<open>Symbol\<close> wraps a Python value: here a \<^verbatim>\<open>str\<close> or a list of \<^verbatim>\<open>str\<close>.\<close>

datatype pyval = PyStr string | PyList "string list"

datatype symbol = Symbol pyval

text \<open>
  Exceptions, as values. The notebook defines no exception class of its own; the names
  are those of the specification's error taxonomy, with \<open>OSError\<close> for the file
  system calls of the last cell.
\<close>

datatype error = InvalidInput | StageFailure | FetchFailure | RenderFailure | OSError

subsection \<open>The constructor \<^verbatim>\<open>News.__init__\<close>\<close>

text \<open>
  The \<^verbatim>\<open>filters\<close> argument is dynamically typed: a list, a tuple, or anything else
  (the notebook passes a single \<^verbatim>\<open>ExcludeFilter\<close>). After
  \<^verbatim>\<open>filters = filters if isinstance(filters, List) or isinstance(filters, tuple) else [filters]\<close>
  the variable holds a list or a tuple, which \<^verbatim>\<open>*filters\<close> unpacks.
\<close>

datatype pyseq = AsList "expression list" | AsTuple "expression list"

datatype filters_arg = Seq pyseq | Single expression

definition normalize_filters :: "filters_arg \<Rightarrow> pyseq" where
  "normalize_filters filters =
     (case filters of Seq s \<Rightarrow> s | Single f \<Rightarrow> AsList [f])"

fun unpack :: "pyseq \<Rightarrow> expression list" where
  "unpack (AsList xs) = xs"
| "unpack (AsTuple xs) = xs"

text \<open>
  The three string constants imported from \<^verbatim>\<open>examples.news\<close> are not part of the
  notebook; they are parameters.
\<close>

record constants =
  HEADER_STYLE_DESCRIPTION :: string
  HTML_TEMPLATE :: string
  HTML_STREAM_STYLE_DESCRIPTION :: string

record news =
  url :: string
  pattern :: string
  render_flag :: bool  \<comment> \<open>the attribute \<^verbatim>\<open>self.render_\<close>\<close>
  data_stream :: expression
  header_style :: expression
  html_template :: symbol
  html_template_seq :: expression
  html_stream :: expression

definition compose_prompt :: string where
  "compose_prompt =
     ''Compose news paragraphs. Combine only facts that belong topic-wise together:'' @ [CHR 0x0A]"

definition header_libraries :: "string list" where
  "header_libraries =
     [''https://cdn.jsdelivr.net/npm/bootstrap@5.2.3/dist/css/bootstrap.min.css'',
      ''https://cdn.jsdelivr.net/npm/bootstrap@5.2.3/dist/js/bootstrap.bundle.min.js'',
      ''https://ajax.googleapis.com/ajax/libs/jquery/3.6.1/jquery.min.js'']"

text \<open>
  \<^verbatim>\<open>self.html_template_seq\<close> and the first stage of \<^verbatim>\<open>self.html_stream\<close> are the
  same \<^verbatim>\<open>Template\<close> object; the record holds its value in both places.
\<close>

definition News_init :: "constants \<Rightarrow> string \<Rightarrow> string \<Rightarrow> filters_arg \<Rightarrow> bool \<Rightarrow> news" where
  "News_init k url' pattern' filters render' =
     (let filters = normalize_filters filters;
          html_template_seq' = Template None
      in \<lparr> url = url',
           pattern = pattern',
           render_flag = render',
           data_stream = Stream (Sequence
             ([Clean, Translate, Outline] @ unpack filters @ [Compose compose_prompt])),
           header_style = Style (HEADER_STYLE_DESCRIPTION k) header_libraries,
           html_template = Symbol (PyStr (HTML_TEMPLATE k)),
           html_template_seq = html_template_seq',
           html_stream = Stream (Sequence
             [html_template_seq', Style (HTML_STREAM_STYLE_DESCRIPTION k) []]) \<rparr>)"

definition news_cell :: "constants \<Rightarrow> news" where
  \<comment> \<open>the notebook's own instance: a single filter, not a list\<close>
  "news_cell k =
     News_init k ''https://www.cnbc.com/cybersecurity/'' ''cnbc''
       (Single (ExcludeFilter ''sentences about subscriptions, licensing, newsletter'')) True"

subsection \<open>External calls\<close>

text \<open>
  Calling a \<^verbatim>\<open>Stream\<close> expression returns a Python generator. What a \<^verbatim>\<open>for\<close> loop
  sees of it is a finite run of yielded items that ends normally (\<open>Stop\<close>) or with an
  exception (\<open>Raise\<close>).
\<close>

datatype 'a generator = Stop | Raise error | Yield 'a "'a generator"

fun yielded :: "'a generator \<Rightarrow> 'a list" where
  "yielded Stop = []"
| "yielded (Raise e) = []"
| "yielded (Yield x g) = x # yielded g"

fun raised :: "'a generator \<Rightarrow> error option" where
  "raised Stop = None"
| "raised (Raise e) = Some e"
| "raised (Yield x g) = raised g"

text \<open>
  Everything \<^verbatim>\<open>forward\<close>, \<^verbatim>\<open>render\<close> and the last cell call outside the notebook
  is a field of the environment: what the call returns or raises, as a function of its
  arguments. \<open>fetch\<close> is \<^verbatim>\<open>self.fetch(url=, pattern=)\<close>, \<open>call_stream\<close> is calling
  a \<^verbatim>\<open>Stream\<close> expression on a symbol, \<open>cluster\<close> and \<open>map_symbol\<close> are
  \<^verbatim>\<open>Symbol.cluster()\<close> and \<^verbatim>\<open>Symbol.map()\<close>, \<open>call_style\<close> is calling a
  \<^verbatim>\<open>Style\<close> expression with \<^verbatim>\<open>max_tokens\<close>, \<open>str\<close> is \<^verbatim>\<open>str()\<close> of a symbol,
  and \<open>abspath\<close>, \<open>makedirs\<close>, \<open>save\<close> are \<^verbatim>\<open>os.path.abspath\<close>,
  \<^verbatim>\<open>os.makedirs(_, exist_ok=_)\<close> and \<^verbatim>\<open>Symbol.save(path, replace=_)\<close>.
\<close>

record env =
  fetch :: "string \<Rightarrow> string \<Rightarrow> error + symbol"
  call_stream :: "expression \<Rightarrow> symbol \<Rightarrow> symbol generator"
  cluster :: "symbol \<Rightarrow> error + symbol"
  map_symbol :: "symbol \<Rightarrow> error + symbol"
  call_style :: "expression \<Rightarrow> symbol \<Rightarrow> nat \<Rightarrow> error + symbol"
  str :: "symbol \<Rightarrow> string"
  abspath :: "string \<Rightarrow> string"
  makedirs :: "string \<Rightarrow> bool \<Rightarrow> error + unit"
  save :: "symbol \<Rightarrow> string \<Rightarrow> bool \<Rightarrow> error + unit"

text \<open>
  The program state is the \<^verbatim>\<open>News\<close> object and the trace of external calls made so
  far, each with its arguments, in the order the program makes them.
\<close>

datatype event =
    Fetch string string
  | Call_stream expression symbol
  | Cluster symbol
  | Map_symbol symbol
  | Call_style expression symbol nat
  | Makedirs string bool
  | Save symbol string bool

record state =
  self :: news
  trace :: "event list"

definition emit :: "event \<Rightarrow> state \<Rightarrow> state" where
  "emit ev s = s\<lparr>trace := trace s @ [ev]\<rparr>"

subsection \<open>String helpers of Python used by \<^verbatim>\<open>render\<close>\<close>

fun join :: "string \<Rightarrow> string list \<Rightarrow> string" where
  "join sep [] = []"
| "join sep [x] = x"
| "join sep (x # y # ys) = x @ sep @ join sep (y # ys)"

text \<open>
  \<^verbatim>\<open>s.replace(old, new)\<close>: every non-overlapping occurrence of \<open>old\<close>, left to
  right; with an empty \<open>old\<close>, \<open>new\<close> goes before every character and at the end.
\<close>

function replace_nonempty :: "string \<Rightarrow> string \<Rightarrow> string \<Rightarrow> string" where
  "replace_nonempty s old new =
     (if old = [] \<or> s = [] then s
      else if take (length old) s = old
        then new @ replace_nonempty (drop (length old) s) old new
      else hd s # replace_nonempty (tl s) old new)"
  by pat_completeness auto
termination
  by (relation "measure (\<lambda>(s, old, new). length s)") auto

definition replace :: "string \<Rightarrow> string \<Rightarrow> string \<Rightarrow> string" where
  "replace s old new =
     (if old = [] then new @ concat (map (\<lambda>ch. ch # new) s)
      else replace_nonempty s old new)"

subsection \<open>\<^verbatim>\<open>News.render\<close> and \<^verbatim>\<open>News.forward\<close>\<close>

text \<open>
  The loop \<^verbatim>\<open>vals = []; for news in g: vals.append(str(news))\<close>, with the list so far
  as accumulator. An exception raised by the generator leaves the loop and the method.
  The list comprehension \<^verbatim>\<open>[str(s) for s in g]\<close> of \<^verbatim>\<open>render\<close> runs the same way.
\<close>

fun for_append :: "(symbol \<Rightarrow> string) \<Rightarrow> string list \<Rightarrow> symbol generator \<Rightarrow> error + string list" where
  "for_append to_str vals Stop = Inr vals"
| "for_append to_str vals (Raise e) = Inl e"
| "for_append to_str vals (Yield news g) = for_append to_str (vals @ [to_str news]) g"

text \<open>
  \<^verbatim>\<open>self.html_template_seq.template_ = str(tmp)\<close> assigns an attribute of the
  \<^verbatim>\<open>Template\<close> object that is also the first stage of \<^verbatim>\<open>self.html_stream\<close>.
\<close>

definition assign_template :: "string \<Rightarrow> news \<Rightarrow> news" where
  "assign_template t n =
     n\<lparr> html_template_seq := Template (Some t),
        html_stream :=
          (case html_stream n of
             Stream (Sequence (Template old # stages)) \<Rightarrow> Stream (Sequence (Template (Some t) # stages))
           | other \<Rightarrow> other) \<rparr>"

definition render :: "env \<Rightarrow> symbol \<Rightarrow> state \<Rightarrow> (error + symbol) \<times> state" where
  "render c symb s =
     (let s1 = emit (Call_style (header_style (self s)) (html_template (self s)) 2000) s in
      case call_style c (header_style (self s)) (html_template (self s)) 2000 of
        Inl e \<Rightarrow> (Inl e, s1)
      | Inr tmp \<Rightarrow>
          let s2 = s1\<lparr>self := assign_template (str c tmp) (self s1)\<rparr>;
              s3 = emit (Call_stream (html_stream (self s2)) symb) s2
          in case for_append (str c) [] (call_stream c (html_stream (self s2)) symb) of
               Inl e \<Rightarrow> (Inl e, s3)
             | Inr strs \<Rightarrow>
                 (Inr (Symbol (PyStr
                    (replace (str c tmp) ''{{placeholder}}'' (join [CHR 0x0A] strs)))), s3))"

definition forward :: "env \<Rightarrow> state \<Rightarrow> (error + symbol) \<times> state" where
  "forward c s =
     (let s1 = emit (Fetch (url (self s)) (pattern (self s))) s in
      case fetch c (url (self s)) (pattern (self s)) of
        Inl e \<Rightarrow> (Inl e, s1)
      | Inr res \<Rightarrow>
          let s2 = emit (Call_stream (data_stream (self s)) res) s1 in
          case for_append (str c) [] (call_stream c (data_stream (self s)) res) of
            Inl e \<Rightarrow> (Inl e, s2)
          | Inr vals \<Rightarrow>
              let s3 = emit (Cluster (Symbol (PyList vals))) s2 in
              case cluster c (Symbol (PyList vals)) of
                Inl e \<Rightarrow> (Inl e, s3)
              | Inr res \<Rightarrow>
                  let s4 = emit (Map_symbol res) s3 in
                  case map_symbol c res of
                    Inl e \<Rightarrow> (Inl e, s4)
                  | Inr symb \<Rightarrow>
                      if \<not> render_flag (self s) then (Inr symb, s4)
                      else render c symb s4)"

subsection \<open>The cell that runs the pipeline\<close>

text \<open>
  \<^verbatim>\<open>expr = Log(Trace(news)); res = expr(); os.makedirs('results', exist_ok=True);
  path = os.path.abspath('results/news.html'); res.save(path, replace=False)\<close>.
  An exception in any statement ends the cell there. Calling \<^verbatim>\<open>news\<close> is calling its
  \<^verbatim>\<open>forward\<close>. The classes \<^verbatim>\<open>Log\<close> and \<^verbatim>\<open>Trace\<close> are imported, not defined in
  the notebook: they are parameters, each taking a callable expression to a callable
  expression.
\<close>

type_synonym callable = "env \<Rightarrow> state \<Rightarrow> (error + symbol) \<times> state"

definition run_cell :: "(callable \<Rightarrow> callable) \<Rightarrow> (callable \<Rightarrow> callable) \<Rightarrow> env \<Rightarrow> state \<Rightarrow> (error + unit) \<times> state" where
  "run_cell Log Trace c s =
     (let expr = Log (Trace forward);
          r = expr c s;
          s1 = snd r
      in case fst r of
           Inl e \<Rightarrow> (Inl e, s1)
         | Inr res \<Rightarrow>
             (let s2 = emit (Makedirs ''results'' True) s1 in
              case makedirs c ''results'' True of
                Inl e \<Rightarrow> (Inl e, s2)
              | Inr u \<Rightarrow>
                  (let path = abspath c ''results/news.html'';
                       s3 = emit (Save res path False) s2
                   in case save c res path False of
                        Inl e \<Rightarrow> (Inl e, s3)
                      | Inr u' \<Rightarrow> (Inr (), s3))))"

subsection \<open>The Sequential Transformer of the specification\<close>

text \<open>
  Modelled from the spec: the class \<^verbatim>\<open>Sequence\<close> is imported, not defined in the
  notebook. Section 3 of the specification gives the data (a Chunk is an index, a
  substring of the document and its token count; a TransformedChunk is a Chunk plus the
  ordered sequence of transformation outputs applied to it, its final output a string),
  section 4.2 the contract: each stage is a function from string to string that may
  fail with \<open>StageFailure\<close>; the stages are applied in the given order, each to the
  accumulated output of the one before, the first to the raw chunk text; when a stage
  fails, the whole transformation fails.
\<close>

record chunk =
  index :: nat
  substring :: string
  token_count :: nat

record transformed_chunk = chunk +
  outputs :: "string list"

type_synonym transform_stage = "string \<Rightarrow> string option"

text \<open>
  Modelled from the spec: the stage loop of \<^verbatim>\<open>Sequence\<close>, which is not in the
  notebook. \<open>acc\<close> is the accumulated output; the result lists the output of every
  stage in order, or is \<open>None\<close> as soon as a stage fails.
\<close>

fun apply_stages :: "transform_stage list \<Rightarrow> string \<Rightarrow> string list option" where
  "apply_stages [] acc = Some []"
| "apply_stages (stage # stages) acc =
     (case stage acc of
        None \<Rightarrow> None
      | Some out \<Rightarrow>
          (case apply_stages stages out of
             None \<Rightarrow> None
           | Some outs \<Rightarrow> Some (out # outs)))"

text \<open>
  Modelled from the spec: \<^verbatim>\<open>transform(chunk, stages)\<close> of section 4.2, the call of a
  \<^verbatim>\<open>Sequence\<close>, which is not in the notebook. The first stage receives the raw chunk
  text; a failing stage fails the whole transformation with \<open>StageFailure\<close>.
\<close>

definition transform :: "chunk \<Rightarrow> transform_stage list \<Rightarrow> error + transformed_chunk" where
  "transform ch stages =
     (case apply_stages stages (substring ch) of
        None \<Rightarrow> Inl StageFailure
      | Some outs \<Rightarrow>
          Inr \<lparr> index = index ch, substring = substring ch, token_count = token_count ch,
                outputs = outs \<rparr>)"

text \<open>
  Modelled from the spec: the final output of a TransformedChunk (section 3), the last
  transformation output, or the chunk text when no stage was applied.
\<close>

definition final_output :: "transformed_chunk \<Rightarrow> string" where
  "final_output t = (if outputs t = [] then substring t else last (outputs t))"

text \<open>
  Modelled from the spec: the two stages of the scenario of section 8, on ASCII text.
\<close>

definition upper_char :: "char \<Rightarrow> char" where
  "upper_char ch =
     (let n = (of_char ch :: nat) in if 97 \<le> n \<and> n \<le> 122 then char_of (n - 32) else ch)"

definition uppercase :: transform_stage where
  "uppercase s = Some (map upper_char s)"

definition reverse :: transform_stage where
  "reverse s = Some (rev s)"

subsection \<open>A concrete environment\<close>

text \<open>
  An environment in which the page is fetched, the stream yields two items and every
  later call succeeds, and one in which the fetch fails.
\<close>

definition demo_constants :: constants where
  "demo_constants =
     \<lparr> HEADER_STYLE_DESCRIPTION = ''header'',
       HTML_TEMPLATE = ''<html>{{placeholder}}</html>'',
       HTML_STREAM_STYLE_DESCRIPTION = ''stream'' \<rparr>"

definition demo_str :: "symbol \<Rightarrow> string" where
  "demo_str symb = (case symb of Symbol (PyStr x) \<Rightarrow> x | Symbol (PyList xs) \<Rightarrow> concat xs)"

definition demo_env :: env where
  "demo_env =
     \<lparr> fetch = (\<lambda>u p. Inr (Symbol (PyStr ''page''))),
       call_stream = (\<lambda>e symb.
          Yield (Symbol (PyStr ''first'')) (Yield (Symbol (PyStr ''second'')) Stop)),
       cluster = Inr,
       map_symbol = Inr,
       call_style = (\<lambda>e symb n. Inr symb),
       str = demo_str,
       abspath = (\<lambda>path. ''/home/'' @ path),
       makedirs = (\<lambda>path exist_ok. Inr ()),
       save = (\<lambda>symb path replace'. Inr ()) \<rparr>"

definition offline_env :: env where
  "offline_env = demo_env\<lparr>fetch := (\<lambda>u p. Inl FetchFailure)\<rparr>"

definition demo_state :: state where
  "demo_state = \<lparr> self = news_cell demo_constants, trace = [] \<rparr>"

text \<open>The same instance with \<^verbatim>\<open>render=False\<close>, so that \<^verbatim>\<open>forward\<close> returns the mapped clusters.\<close>

definition plain_state :: state where
  "plain_state = \<lparr> self = (news_cell demo_constants)\<lparr>render_flag := False\<rparr>, trace = [] \<rparr>"

section \<open>Theorems\<close>

text \<open>
  C10. The constructor normalises \<^verbatim>\<open>filters\<close>: a value that is neither a list nor a
  tuple is wrapped into a one-element list, so a single filter expression builds the
  same \<^verbatim>\<open>News\<close> object, and in particular the same \<^verbatim>\<open>data_stream\<close> pipeline
  (clean, translate, outline, the filter, compose), as the one-element list holding it.
\<close>

theorem News_init_single_filter:
  "normalize_filters (Single f) = AsList [f]
   \<and> News_init k u p (Single f) r = News_init k u p (Seq (AsList [f])) r
   \<and> data_stream (News_init k u p (Single f) r) =
       Stream (Sequence [Clean, Translate, Outline, f, Compose compose_prompt])"
  by (simp add: News_init_def normalize_filters_def Let_def)

theorem News_init_single_filter_witness:
  "data_stream (news_cell demo_constants) =
     Stream (Sequence [Clean, Translate, Outline,
       ExcludeFilter ''sentences about subscriptions, licensing, newsletter'',
       Compose compose_prompt])"
  unfolding news_cell_def
  by (rule News_init_single_filter [THEN conjunct2, THEN conjunct2])

text \<open>
  C2. When the initial fetch raises, \<^verbatim>\<open>forward\<close> returns that exception and the only
  external call made is the fetch: the stream is never called, so nothing is chunked.
  The cell that runs the pipeline, with decorators that pass this call through, ends
  with the same exception and the same trace: neither \<^verbatim>\<open>os.makedirs\<close> nor
  \<^verbatim>\<open>save\<close> is reached, so nothing is persisted.
\<close>

theorem fetch_failure_aborts:
  assumes "fetch c (url (self s)) (pattern (self s)) = Inl e"
  shows "forward c s =
           (Inl e, s\<lparr>trace := trace s @ [Fetch (url (self s)) (pattern (self s))]\<rparr>)
       \<and> (Log (Trace forward) c s = forward c s \<longrightarrow>
            run_cell Log Trace c s =
              (Inl e, s\<lparr>trace := trace s @ [Fetch (url (self s)) (pattern (self s))]\<rparr>))"
  using assms by (simp add: forward_def run_cell_def Let_def emit_def)

theorem fetch_failure_aborts_witness:
  "fetch offline_env (url (self demo_state)) (pattern (self demo_state)) = Inl FetchFailure
   \<and> fst (forward offline_env demo_state) = Inl FetchFailure
   \<and> trace (snd (forward offline_env demo_state)) =
       [Fetch ''https://www.cnbc.com/cybersecurity/'' ''cnbc'']
   \<and> fst (run_cell (\<lambda>expr. expr) (\<lambda>expr. expr) offline_env demo_state) = Inl FetchFailure
   \<and> trace (snd (run_cell (\<lambda>expr. expr) (\<lambda>expr. expr) offline_env demo_state)) =
       [Fetch ''https://www.cnbc.com/cybersecurity/'' ''cnbc'']"
proof -
  have f: "fetch offline_env (url (self demo_state)) (pattern (self demo_state)) = Inl FetchFailure"
    by (simp add: offline_env_def)
  have u: "url (self demo_state) = ''https://www.cnbc.com/cybersecurity/''"
    and p: "pattern (self demo_state) = ''cnbc''"
    and t: "trace demo_state = []"
    by (simp_all add: demo_state_def news_cell_def News_init_def Let_def)
  show ?thesis
    using f fetch_failure_aborts [OF f, of "\<lambda>expr. expr" "\<lambda>expr. expr"] by (simp add: u p t)
qed

subsection \<open>The loop of \<^verbatim>\<open>forward\<close>\<close>

lemma for_append_acc:
  "for_append f vals g =
     (case raised g of None \<Rightarrow> Inr (vals @ map f (yielded g)) | Some e \<Rightarrow> Inl e)"
  by (induction g arbitrary: vals) (simp_all split: option.splits)

lemma trace_render:
  "\<exists>rest. trace (snd (render c symb s)) = trace s @ rest \<and> (\<forall>x. Cluster x \<notin> set rest)"
  by (auto simp: render_def Let_def emit_def split: sum.splits)

lemma forward_trace_after_stream:
  assumes f: "fetch c (url (self s)) (pattern (self s)) = Inr res"
    and none: "raised (call_stream c (data_stream (self s)) res) = None"
  shows "\<exists>rest. trace (snd (forward c s)) =
           trace s @ [Fetch (url (self s)) (pattern (self s)),
                      Call_stream (data_stream (self s)) res,
                      Cluster (Symbol (PyList
                        (map (str c) (yielded (call_stream c (data_stream (self s)) res)))))] @ rest
           \<and> (\<forall>x. Cluster x \<notin> set rest)"
proof -
  let ?V = "Symbol (PyList (map (str c) (yielded (call_stream c (data_stream (self s)) res))))"
  let ?pre = "trace s @ [Fetch (url (self s)) (pattern (self s)),
                         Call_stream (data_stream (self s)) res, Cluster ?V]"
  have "\<exists>rest. trace (snd (forward c s)) = ?pre @ rest \<and> (\<forall>x. Cluster x \<notin> set rest)"
  proof (cases "cluster c ?V")
    case (Inl e)
    with f none show ?thesis
      by (simp add: forward_def Let_def emit_def for_append_acc)
  next
    case clustered: (Inr r)
    show ?thesis
    proof (cases "map_symbol c r")
      case (Inl e)
      with clustered f none show ?thesis
        by (simp add: forward_def Let_def emit_def for_append_acc)
    next
      case mapped: (Inr sy)
      show ?thesis
      proof (cases "render_flag (self s)")
        case False
        with clustered mapped f none show ?thesis
          by (simp add: forward_def Let_def emit_def for_append_acc)
      next
        case True
        let ?s4 = "s\<lparr>trace := ?pre @ [Map_symbol r]\<rparr>"
        from trace_render [of c sy ?s4] obtain rest where
          r: "trace (snd (render c sy ?s4)) = trace ?s4 @ rest" "\<forall>x. Cluster x \<notin> set rest"
          by blast
        have "forward c s = render c sy ?s4"
          using True clustered mapped f none
          by (simp add: forward_def Let_def emit_def for_append_acc)
        with r have "trace (snd (forward c s)) = ?pre @ (Map_symbol r # rest)"
          by simp
        moreover have "\<forall>x. Cluster x \<notin> set (Map_symbol r # rest)"
          using r(2) by simp
        ultimately show ?thesis by blast
      qed
    qed
  qed
  then show ?thesis by simp
qed

lemma forward_after_stream:
  assumes f: "fetch c (url (self s)) (pattern (self s)) = Inr res"
    and none: "raised (call_stream c (data_stream (self s)) res) = None"
  shows "forward c s =
     (let vals = map (str c) (yielded (call_stream c (data_stream (self s)) res));
          s3 = s\<lparr>trace := trace s @ [Fetch (url (self s)) (pattern (self s)),
                                      Call_stream (data_stream (self s)) res,
                                      Cluster (Symbol (PyList vals))]\<rparr>
      in case cluster c (Symbol (PyList vals)) of
           Inl e \<Rightarrow> (Inl e, s3)
         | Inr r \<Rightarrow>
             (let s4 = s3\<lparr>trace := trace s3 @ [Map_symbol r]\<rparr>
              in case map_symbol c r of
                   Inl e \<Rightarrow> (Inl e, s4)
                 | Inr symb \<Rightarrow>
                     if \<not> render_flag (self s) then (Inr symb, s4) else render c symb s4))"
  using f none
  by (simp add: forward_def Let_def emit_def for_append_acc split: sum.splits)

text \<open>
  C3. Once the fetch has succeeded, let \<open>g\<close> be what the data stream generator does.
  If it ends normally, there is a list \<open>vals\<close>, as long as the run of yielded items
  and with \<^verbatim>\<open>str\<close> of the i-th yielded item as its i-th element, such that
  \<^verbatim>\<open>forward\<close> is the clusterer applied to \<^verbatim>\<open>Symbol(vals)\<close> followed by the rest of
  the method: an exception of the clusterer is the result; otherwise its result is
  mapped, and the mapped symbol is returned or rendered. So the result of \<^verbatim>\<open>forward\<close>
  depends on the yielded items only through what the clusterer returns on that list, in
  that order. The trace shows this clustering call right after the stream call and no
  other clustering call. If the generator raises, \<^verbatim>\<open>forward\<close> ends with that
  exception and the clusterer is never handed a partial list. The stream itself is a
  parameter: its i-th item is the framework's transformation of the i-th chunk.
\<close>

theorem forward_clusters_in_stream_order:
  assumes "fetch c (url (self s)) (pattern (self s)) = Inr res"
    and "call_stream c (data_stream (self s)) res = g"
  shows "(raised g = None \<longrightarrow>
          (\<exists>vals.
             length vals = length (yielded g)
             \<and> (\<forall>i<length vals. vals ! i = str c (yielded g ! i))
             \<and> forward c s =
                 (let s3 = s\<lparr>trace := trace s @ [Fetch (url (self s)) (pattern (self s)),
                                                  Call_stream (data_stream (self s)) res,
                                                  Cluster (Symbol (PyList vals))]\<rparr>
                  in case cluster c (Symbol (PyList vals)) of
                       Inl e \<Rightarrow> (Inl e, s3)
                     | Inr r \<Rightarrow>
                         (let s4 = s3\<lparr>trace := trace s3 @ [Map_symbol r]\<rparr>
                          in case map_symbol c r of
                               Inl e \<Rightarrow> (Inl e, s4)
                             | Inr symb \<Rightarrow>
                                 if \<not> render_flag (self s) then (Inr symb, s4)
                                 else render c symb s4))
             \<and> (\<exists>rest.
                   trace (snd (forward c s)) =
                     trace s @ [Fetch (url (self s)) (pattern (self s)),
                                Call_stream (data_stream (self s)) res,
                                Cluster (Symbol (PyList vals))] @ rest
                   \<and> (\<forall>x. Cluster x \<notin> set rest))))
       \<and> (\<forall>e. raised g = Some e \<longrightarrow>
            forward c s =
              (Inl e, s\<lparr>trace := trace s @ [Fetch (url (self s)) (pattern (self s)),
                                            Call_stream (data_stream (self s)) res]\<rparr>))"
proof (intro conjI impI allI)
  fix e assume "raised g = Some e"
  with assms show "forward c s =
      (Inl e, s\<lparr>trace := trace s @ [Fetch (url (self s)) (pattern (self s)),
                                    Call_stream (data_stream (self s)) res]\<rparr>)"
    by (simp add: forward_def Let_def emit_def for_append_acc)
next
  assume none: "raised g = None"
  let ?vals = "map (str c) (yielded g)"
  from none assms forward_trace_after_stream [of c s res] obtain rest where
    tr: "trace (snd (forward c s)) =
       trace s @ [Fetch (url (self s)) (pattern (self s)),
                  Call_stream (data_stream (self s)) res,
                  Cluster (Symbol (PyList ?vals))] @ rest"
    "\<forall>x. Cluster x \<notin> set rest"
    by auto
  from none assms forward_after_stream [of c s res] have
    eq: "forward c s =
       (let s3 = s\<lparr>trace := trace s @ [Fetch (url (self s)) (pattern (self s)),
                                        Call_stream (data_stream (self s)) res,
                                        Cluster (Symbol (PyList ?vals))]\<rparr>
        in case cluster c (Symbol (PyList ?vals)) of
             Inl e \<Rightarrow> (Inl e, s3)
           | Inr r \<Rightarrow>
               (let s4 = s3\<lparr>trace := trace s3 @ [Map_symbol r]\<rparr>
                in case map_symbol c r of
                     Inl e \<Rightarrow> (Inl e, s4)
                   | Inr symb \<Rightarrow>
                       if \<not> render_flag (self s) then (Inr symb, s4)
                       else render c symb s4))"
    by (simp add: Let_def)
  have "length ?vals = length (yielded g)
      \<and> (\<forall>i<length ?vals. ?vals ! i = str c (yielded g ! i))"
    by simp
  with eq tr show "\<exists>vals.
      length vals = length (yielded g)
      \<and> (\<forall>i<length vals. vals ! i = str c (yielded g ! i))
      \<and> forward c s =
          (let s3 = s\<lparr>trace := trace s @ [Fetch (url (self s)) (pattern (self s)),
                                           Call_stream (data_stream (self s)) res,
                                           Cluster (Symbol (PyList vals))]\<rparr>
           in case cluster c (Symbol (PyList vals)) of
                Inl e \<Rightarrow> (Inl e, s3)
              | Inr r \<Rightarrow>
                  (let s4 = s3\<lparr>trace := trace s3 @ [Map_symbol r]\<rparr>
                   in case map_symbol c r of
                        Inl e \<Rightarrow> (Inl e, s4)
                      | Inr symb \<Rightarrow>
                          if \<not> render_flag (self s) then (Inr symb, s4)
                          else render c symb s4))
      \<and> (\<exists>rest.
            trace (snd (forward c s)) =
              trace s @ [Fetch (url (self s)) (pattern (self s)),
                         Call_stream (data_stream (self s)) res,
                         Cluster (Symbol (PyList vals))] @ rest
            \<and> (\<forall>x. Cluster x \<notin> set rest))"
    by (intro exI [of _ ?vals]) blast
qed

theorem forward_clusters_in_stream_order_witness:
  "fetch demo_env (url (self plain_state)) (pattern (self plain_state)) =
     Inr (Symbol (PyStr ''page''))
   \<and> yielded (call_stream demo_env (data_stream (self plain_state)) (Symbol (PyStr ''page''))) =
       [Symbol (PyStr ''first''), Symbol (PyStr ''second'')]
   \<and> raised (call_stream demo_env (data_stream (self plain_state)) (Symbol (PyStr ''page''))) =
       None
   \<and> cluster demo_env (Symbol (PyList [''first'', ''second''])) =
       Inr (Symbol (PyList [''first'', ''second'']))
   \<and> fst (forward demo_env plain_state) = Inr (Symbol (PyList [''first'', ''second'']))
   \<and> trace (snd (forward demo_env plain_state)) =
       [Fetch ''https://www.cnbc.com/cybersecurity/'' ''cnbc'',
        Call_stream (data_stream (self plain_state)) (Symbol (PyStr ''page'')),
        Cluster (Symbol (PyList [''first'', ''second''])),
        Map_symbol (Symbol (PyList [''first'', ''second'']))]"
proof -
  let ?page = "Symbol (PyStr ''page'')"
  have f: "fetch demo_env (url (self plain_state)) (pattern (self plain_state)) = Inr ?page"
    by (simp add: demo_env_def)
  have g: "call_stream demo_env (data_stream (self plain_state)) ?page =
             Yield (Symbol (PyStr ''first'')) (Yield (Symbol (PyStr ''second'')) Stop)"
    by (simp add: demo_env_def)
  have u: "url (self plain_state) = ''https://www.cnbc.com/cybersecurity/''"
    and p: "pattern (self plain_state) = ''cnbc''"
    and t: "trace plain_state = []"
    and r: "\<not> render_flag (self plain_state)"
    by (simp_all add: plain_state_def news_cell_def News_init_def Let_def)
  have s: "str demo_env (Symbol (PyStr ''first'')) = ''first''"
    "str demo_env (Symbol (PyStr ''second'')) = ''second''"
    by (simp_all add: demo_env_def demo_str_def)
  have cm: "cluster demo_env = Inr" "map_symbol demo_env = Inr"
    by (simp_all add: demo_env_def)
  from forward_clusters_in_stream_order [OF f g] obtain vals where
    v: "length vals = 2"
      "\<forall>i<length vals. vals ! i =
          str demo_env ([Symbol (PyStr ''first''), Symbol (PyStr ''second'')] ! i)"
      "forward demo_env plain_state =
         (Inr (Symbol (PyList vals)),
          plain_state\<lparr>trace := [Fetch ''https://www.cnbc.com/cybersecurity/'' ''cnbc'',
             Call_stream (data_stream (self plain_state)) ?page,
             Cluster (Symbol (PyList vals)), Map_symbol (Symbol (PyList vals))]\<rparr>)"
    by (auto simp: u p t r cm Let_def)
  from v(1,2) have "vals ! 0 = ''first''" "vals ! 1 = ''second''"
    using s by simp_all
  with v(1) have "vals = [''first'', ''second'']"
    by (cases vals; cases "tl vals") auto
  with v(3) f g cm show ?thesis by simp
qed

subsection \<open>The Sequential Transformer\<close>

lemma apply_stages_length:
  "apply_stages stages acc = Some outs \<Longrightarrow> length outs = length stages"
  by (induction stages arbitrary: acc outs) (auto split: option.splits)

lemma apply_stages_nth:
  "apply_stages stages acc = Some outs \<Longrightarrow> i < length stages \<Longrightarrow>
     (stages ! i) (if i = 0 then acc else outs ! (i - 1)) = Some (outs ! i)"
proof (induction stages arbitrary: acc outs i)
  case Nil
  then show ?case by simp
next
  case (Cons stage stages)
  from Cons.prems(1) obtain out outs' where
    o: "stage acc = Some out" "apply_stages stages out = Some outs'" "outs = out # outs'"
    by (auto split: option.splits)
  show ?case
  proof (cases i)
    case 0
    with o show ?thesis by simp
  next
    case (Suc j)
    with Cons.prems(2) have j: "j < length stages" by simp
    from Cons.IH [OF o(2) j] show ?thesis using Suc o(3)
      by (cases j) simp_all
  qed
qed

lemma apply_stages_pure:
  "\<exists>outs. apply_stages (map (\<lambda>f s. Some (f s)) fs) acc = Some outs \<and>
     (if fs = [] then acc else last outs) = fold (\<lambda>f s. f s) fs acc"
proof (induction fs arbitrary: acc)
  case Nil
  then show ?case by simp
next
  case (Cons f fs)
  from Cons.IH [of "f acc"] obtain outs where
    o: "apply_stages (map (\<lambda>f s. Some (f s)) fs) (f acc) = Some outs"
      "(if fs = [] then f acc else last outs) = fold (\<lambda>f s. f s) fs (f acc)"
    by blast
  from o(1) have "length outs = length fs"
    using apply_stages_length by fastforce
  then have "fs \<noteq> [] \<Longrightarrow> outs \<noteq> []" by auto
  with o show ?case by (auto split: if_splits)
qed

lemma uppercase_cab: "uppercase ''cab'' = Some ''CAB''"
  by code_simp

lemma transform_cab:
  "transform \<lparr>index = i, substring = ''cab'', token_count = n\<rparr> [uppercase, reverse] =
     Inr \<lparr>index = i, substring = ''cab'', token_count = n, outputs = [''CAB'', ''BAC'']\<rparr>"
  by (simp add: transform_def uppercase_cab reverse_def)

text \<open>
  C4. The Sequential Transformer applies the stages left to right. Whenever the
  transformation of a chunk succeeds, there is one output per stage, stage 0 was applied
  to the raw chunk text and stage \<open>i > 0\<close> to the output of stage \<open>i - 1\<close>, and the
  final output is the output of the last stage. For stages that never fail the
  transformation succeeds and its final output is the left-to-right fold of the stages
  over the chunk text. In particular the stages uppercase, reverse turn the chunk
  \<^verbatim>\<open>cab\<close> into \<^verbatim>\<open>BAC\<close>.
\<close>

theorem transform_left_to_right:
  "(\<forall>t. transform ch stages = Inr t \<longrightarrow>
        length (outputs t) = length stages
      \<and> (\<forall>i<length stages.
            (stages ! i) (if i = 0 then substring ch else outputs t ! (i - 1)) =
              Some (outputs t ! i))
      \<and> final_output t =
          (if stages = [] then substring ch else outputs t ! (length stages - 1)))
   \<and> (\<exists>t. transform ch (map (\<lambda>f s. Some (f s)) fs) = Inr t
          \<and> final_output t = fold (\<lambda>f s. f s) fs (substring ch))
   \<and> (\<exists>t. transform \<lparr>index = k, substring = ''cab'', token_count = n\<rparr> [uppercase, reverse] = Inr t
          \<and> final_output t = ''BAC'')"
proof -
  have part1: "length (outputs t) = length stages
      \<and> (\<forall>i<length stages.
            (stages ! i) (if i = 0 then substring ch else outputs t ! (i - 1)) =
              Some (outputs t ! i))
      \<and> final_output t =
          (if stages = [] then substring ch else outputs t ! (length stages - 1))"
    if t: "transform ch stages = Inr t" for t
  proof -
    from t obtain outs where
      o: "apply_stages stages (substring ch) = Some outs" "outputs t = outs"
        "substring t = substring ch"
      by (auto simp: transform_def split: option.splits)
    from o have len: "length (outputs t) = length stages"
      using apply_stages_length by blast
    moreover from o have "\<forall>i<length stages.
        (stages ! i) (if i = 0 then substring ch else outputs t ! (i - 1)) =
          Some (outputs t ! i)"
      using apply_stages_nth by blast
    moreover from len o(3) have "final_output t =
        (if stages = [] then substring ch else outputs t ! (length stages - 1))"
      by (auto simp: final_output_def last_conv_nth)
    ultimately show ?thesis by blast
  qed
  have part2: "\<exists>t. transform ch (map (\<lambda>f s. Some (f s)) fs) = Inr t
      \<and> final_output t = fold (\<lambda>f s. f s) fs (substring ch)"
  proof -
    from apply_stages_pure [of fs "substring ch"] obtain outs where
      o: "apply_stages (map (\<lambda>f s. Some (f s)) fs) (substring ch) = Some outs"
        "(if fs = [] then substring ch else last outs) = fold (\<lambda>f s. f s) fs (substring ch)"
      by blast
    from o(1) have "length outs = length fs"
      using apply_stages_length by fastforce
    then have "outs = [] \<longleftrightarrow> fs = []" by auto
    with o show ?thesis
      by (auto simp: transform_def final_output_def)
  qed
  have part3: "\<exists>t. transform \<lparr>index = k, substring = ''cab'', token_count = n\<rparr>
        [uppercase, reverse] = Inr t \<and> final_output t = ''BAC''"
    by (simp add: transform_cab final_output_def)
  from part1 part2 part3 show ?thesis by blast
qed

theorem transform_left_to_right_witness:
  "\<exists>t. transform \<lparr>index = 0, substring = ''cab'', token_count = 1\<rparr> [uppercase, reverse] = Inr t
      \<and> length (outputs t) = 2
      \<and> uppercase ''cab'' = Some (outputs t ! 0)
      \<and> reverse (outputs t ! 0) = Some (outputs t ! 1)
      \<and> final_output t = outputs t ! 1
      \<and> final_output t = ''BAC''"
proof -
  let ?ch = "\<lparr>index = 0, substring = ''cab'', token_count = 1\<rparr>"
  note th = transform_left_to_right [where ch = ?ch and stages = "[uppercase, reverse]"
      and k = 0 and n = 1 and fs = "[]"]
  from th obtain t where
    t: "transform ?ch [uppercase, reverse] = Inr t" "final_output t = ''BAC''"
    by blast
  from th t(1) have
    l: "length (outputs t) = length [uppercase, reverse]"
    and n: "\<forall>i<length [uppercase, reverse].
            ([uppercase, reverse] ! i) (if i = 0 then substring ?ch else outputs t ! (i - 1)) =
              Some (outputs t ! i)"
    and f: "final_output t =
          (if [uppercase, reverse] = [] then substring ?ch
           else outputs t ! (length [uppercase, reverse] - 1))"
    by blast+
  from n [rule_format, of 0] have "uppercase ''cab'' = Some (outputs t ! 0)"
    by simp
  moreover from n [rule_format, of 1] have "reverse (outputs t ! 0) = Some (outputs t ! 1)"
    by simp
  ultimately show ?thesis using t l f by auto
qed

text \<open>
  C5. With an empty stage list the Sequential Transformer succeeds, records no output,
  and its final output is the chunk's text unchanged.
\<close>

theorem transform_empty_identity:
  "\<exists>t. transform ch [] = Inr t \<and> final_output t = substring ch \<and> outputs t = []"
  by (simp add: transform_def final_output_def)

theorem transform_empty_identity_witness:
  "\<exists>t. transform \<lparr>index = 0, substring = ''cab'', token_count = 1\<rparr> [] = Inr t
      \<and> final_output t = ''cab''"
  using transform_empty_identity [of "\<lparr>index = 0, substring = ''cab'', token_count = 1\<rparr>"]
  by auto

end
